theory Spec2Isabelle
  imports Complex_Main "HOL-Library.Char_ord" "HOL-Library.List_Lexorder"
begin

section \<open>Values, reference table and session state\<close>

text \<open>
  The program is \<^verbatim>\<open>carbon_calc_app.py\<close>. Its session lists hold Python values:
  the entries are dictionaries built by \<^verbatim>\<open>add_item\<close>, and \<^verbatim>\<open>load_calculation\<close>
  stores whatever \<^verbatim>\<open>json.load\<close> returned. The values are therefore modelled by one
  datatype of JSON-shaped Python values, together with the one value of another
  kind that reaches an entry: a \<^verbatim>\<open>numpy.int64\<close> scalar read from the table. A
  dictionary is an association list in insertion order, read with \<open>map_of\<close>.
  Floats, Python's and numpy's, are \<open>real\<close>: rounding, NaN and the infinities of
  the machine's floats are outside this model.
\<close>

datatype json =
    JNull
  | JBool bool
  | JNum real
  | JStr string
  | JArr "json list"
  | JObj "(string \<times> json) list"
  | NpInt64 int

datatype error =
    AttributeError | IndexError | KeyError | TypeError | OverflowError
  | FileNotFoundError | JSONDecodeError

datatype ui_msg = Warning string | Success string

text \<open>
  A cell of the numeric column \<^verbatim>\<open>Embodied Carbon (kg CO2e per declared unit)\<close>.
  \<^verbatim>\<open>load_ice_db\<close> leaves the column as \<^verbatim>\<open>pd.read_excel\<close> typed it, so a row read
  with \<^verbatim>\<open>iloc[0]\<close> holds a \<^verbatim>\<open>numpy.float64\<close>, or a \<^verbatim>\<open>numpy.int64\<close> when every value
  of the column is a whole number. The first is a Python float, the second is not
  a Python int.
\<close>

datatype cell = Float64 real | Int64 int

fun cell_value :: "cell \<Rightarrow> real" where
  "cell_value (Float64 x) = x"
| "cell_value (Int64 i) = of_int i"

fun cell_object :: "cell \<Rightarrow> json" where
  "cell_object (Float64 x) = JNum x"
| "cell_object (Int64 i) = NpInt64 i"

text \<open>One row of \<^verbatim>\<open>ice_db\<close>, the data frame returned by \<^verbatim>\<open>load_ice_db\<close>.\<close>

record material_row =
  material :: string
  sub_material :: string
  ice_db_name :: string
  units_of_declared_unit :: string
  embodied_carbon :: cell

text \<open>\<^verbatim>\<open>st.session_state\<close>: the two attributes the program keeps there.\<close>

record session =
  adds :: json
  omits :: json

definition initial_session :: session where
  "initial_session = \<lparr>adds = JArr [], omits = JArr []\<rparr>"

section \<open>Python operations used by the program\<close>

text \<open>\<^verbatim>\<open>obj.append(x)\<close>: only a list has the method.\<close>

fun py_append :: "json \<Rightarrow> json \<Rightarrow> error + json" where
  "py_append (JArr xs) x = Inr (JArr (xs @ [x]))"
| "py_append _ x = Inl AttributeError"

text \<open>
  \<^verbatim>\<open>obj.pop(index)\<close> with an integer index. \<^verbatim>\<open>list.pop\<close> first converts the index
  to a machine integer (\<^verbatim>\<open>Py_ssize_t\<close>, 64 bits here) and raises \<^verbatim>\<open>OverflowError\<close>
  when it does not fit. Then a negative index counts from the end, and an index
  outside \<open>[-len, len)\<close> raises \<^verbatim>\<open>IndexError\<close>. The result is the removed element
  and the object after the removal. A dictionary from \<^verbatim>\<open>json.load\<close> has string
  keys only, so popping an integer key raises \<^verbatim>\<open>KeyError\<close>; the other values have
  no such method.
\<close>

fun py_pop :: "json \<Rightarrow> int \<Rightarrow> error + (json \<times> json)" where
  "py_pop (JArr xs) index =
     (if index < - (2 ^ 63) \<or> 2 ^ 63 \<le> index then Inl OverflowError
      else
        (let i = (if index < 0 then index + int (length xs) else index)
         in if i < 0 \<or> int (length xs) \<le> i then Inl IndexError
            else Inr (xs ! nat i, JArr (take (nat i) xs @ drop (Suc (nat i)) xs))))"
| "py_pop (JObj d) index = Inl KeyError"
| "py_pop _ index = Inl AttributeError"

section \<open>Line items\<close>

text \<open>
  The dictionary literal that \<^verbatim>\<open>add_item\<close> binds to \<^verbatim>\<open>entry\<close>. \<^verbatim>\<open>EC_per_unit\<close> is
  the object read from the row.
\<close>

definition entry_dict :: "string \<Rightarrow> real \<Rightarrow> cell \<Rightarrow> real \<Rightarrow> json" where
  "entry_dict ice_name qty ec_per_unit total_ec =
     JObj [(''ICE DB Name'', JStr ice_name), (''Qty'', JNum qty),
           (''EC_per_unit'', cell_object ec_per_unit), (''Total_EC'', JNum total_ec)]"

text \<open>
  \<^verbatim>\<open>add_item(list_type, ice_name, qty)\<close>, with \<^verbatim>\<open>qty\<close> a float, as the page passes
  it: the product of a numpy scalar and a float is a \<^verbatim>\<open>numpy.float64\<close>. The result
  is the exception raised or the messages written to the page, together with the
  session afterwards.
\<close>

definition add_item ::
  "material_row list \<Rightarrow> string \<Rightarrow> string \<Rightarrow> real \<Rightarrow> session \<Rightarrow> (error + ui_msg list) \<times> session" where
  "add_item ice_db list_type ice_name qty s =
     (let match = filter (\<lambda>r. ice_db_name r = ice_name) ice_db in
      case match of
        [] \<Rightarrow> (Inr [Warning (ice_name @ '' not found in ICE DB'')], s)
      | row # _ \<Rightarrow>
          (let ec_per_unit = embodied_carbon row;
               total_ec = cell_value ec_per_unit * qty;
               entry = entry_dict ice_name qty ec_per_unit total_ec
           in if list_type = ''Add''
              then (case py_append (adds s) entry of
                      Inl e \<Rightarrow> (Inl e, s)
                    | Inr l \<Rightarrow> (Inr [], s\<lparr>adds := l\<rparr>))
              else (case py_append (omits s) entry of
                      Inl e \<Rightarrow> (Inl e, s)
                    | Inr l \<Rightarrow> (Inr [], s\<lparr>omits := l\<rparr>))))"

text \<open>\<^verbatim>\<open>delete_item(list_type, index)\<close>; the popped element is discarded.\<close>

definition delete_item :: "string \<Rightarrow> int \<Rightarrow> session \<Rightarrow> (error + unit) \<times> session" where
  "delete_item list_type index s =
     (if list_type = ''Add''
      then (case py_pop (adds s) index of
              Inl e \<Rightarrow> (Inl e, s)
            | Inr (_, l) \<Rightarrow> (Inr (), s\<lparr>adds := l\<rparr>))
      else (case py_pop (omits s) index of
              Inl e \<Rightarrow> (Inl e, s)
            | Inr (_, l) \<Rightarrow> (Inr (), s\<lparr>omits := l\<rparr>)))"

section \<open>Totals\<close>

text \<open>
  \<^verbatim>\<open>for item in obj\<close>: a list yields its elements, a string its characters, a
  dictionary its keys; the other values are not iterable.
\<close>

fun py_iter :: "json \<Rightarrow> error + json list" where
  "py_iter (JArr xs) = Inr xs"
| "py_iter (JStr cs) = Inr (map (\<lambda>c. JStr [c]) cs)"
| "py_iter (JObj d) = Inr (map (\<lambda>kv. JStr (fst kv)) d)"
| "py_iter _ = Inl TypeError"

text \<open>
  \<^verbatim>\<open>obj[key]\<close> with a string key: only a dictionary accepts it. A numpy scalar
  answers with \<^verbatim>\<open>IndexError\<close>, the other values with \<^verbatim>\<open>TypeError\<close>.
\<close>

fun py_getitem :: "json \<Rightarrow> string \<Rightarrow> error + json" where
  "py_getitem (JObj d) key = (case map_of d key of None \<Rightarrow> Inl KeyError | Some v \<Rightarrow> Inr v)"
| "py_getitem (NpInt64 i) key = Inl IndexError"
| "py_getitem _ key = Inl TypeError"

text \<open>\<^verbatim>\<open>acc + v\<close> with a numeric \<^verbatim>\<open>acc\<close>: Python's booleans are the integers 0 and 1.\<close>

fun py_add :: "real \<Rightarrow> json \<Rightarrow> error + real" where
  "py_add acc (JNum v) = Inr (acc + v)"
| "py_add acc (JBool b) = Inr (acc + (if b then 1 else 0))"
| "py_add acc (NpInt64 i) = Inr (acc + of_int i)"
| "py_add acc _ = Inl TypeError"

text \<open>
  \<^verbatim>\<open>sum(item["Total_EC"] for item in items)\<close>: the generator is consumed from the
  left, starting from 0, and the first exception ends it.
\<close>

fun sum_total_ec :: "real \<Rightarrow> json list \<Rightarrow> error + real" where
  "sum_total_ec acc [] = Inr acc"
| "sum_total_ec acc (item # items) =
     (case py_getitem item ''Total_EC'' of
        Inl e \<Rightarrow> Inl e
      | Inr v \<Rightarrow> (case py_add acc v of
                   Inl e \<Rightarrow> Inl e
                 | Inr acc' \<Rightarrow> sum_total_ec acc' items))"

definition update_totals :: "session \<Rightarrow> error + (real \<times> real \<times> real)" where
  "update_totals s =
     (case py_iter (adds s) of
        Inl e \<Rightarrow> Inl e
      | Inr xs \<Rightarrow>
          (case sum_total_ec 0 xs of
             Inl e \<Rightarrow> Inl e
           | Inr total_add \<Rightarrow>
               (case py_iter (omits s) of
                  Inl e \<Rightarrow> Inl e
                | Inr ys \<Rightarrow>
                    (case sum_total_ec 0 ys of
                       Inl e \<Rightarrow> Inl e
                     | Inr total_omit \<Rightarrow>
                         (let net_change = total_add - total_omit
                          in Inr (total_add, total_omit, net_change))))))"

section \<open>Saving and loading\<close>

text \<open>
  The file system, as far as the program uses it: the directories that exist and
  the files with what they hold. A file holds either a text that \<^verbatim>\<open>json.load\<close>
  parses, named by the value \<^verbatim>\<open>json.load\<close> returns for it, or a text that does not
  parse. Permissions, length limits and disk space are not modelled.
\<close>

datatype file_content = JsonText json | Broken

record files =
  dirs :: "string set"
  contents :: "string \<rightharpoonup> file_content"

definition SAVE_FOLDER :: string where
  "SAVE_FOLDER = ''saved_calculations''"

text \<open>\<^verbatim>\<open>os.path.join\<close> and \<^verbatim>\<open>os.path.dirname\<close> of POSIX, the first for two components.\<close>

definition path_join :: "string \<Rightarrow> string \<Rightarrow> string" where
  "path_join a b =
     (if b \<noteq> [] \<and> hd b = CHR ''/'' then b
      else if a = [] \<or> last a = CHR ''/'' then a @ b
      else a @ ''/'' @ b)"

definition dirname :: "string \<Rightarrow> string" where
  "dirname p =
     (let head = rev (dropWhile (\<lambda>c. c \<noteq> CHR ''/'') (rev p));
          stripped = rev (dropWhile (\<lambda>c. c = CHR ''/'') (rev head))
      in if stripped = [] then head else stripped)"

text \<open>
  \<^verbatim>\<open>open(path, "w")\<close>: raises \<^verbatim>\<open>FileNotFoundError\<close> when the directory of the path
  does not exist (a path without directory is in the current one). Otherwise the
  file exists from now on and is empty, which is not a text that parses.
\<close>

definition open_w :: "string \<Rightarrow> files \<Rightarrow> error + files" where
  "open_w path fs =
     (if dirname path = [] \<or> dirname path \<in> dirs fs
      then Inr (fs\<lparr>contents := (contents fs)(path \<mapsto> Broken)\<rparr>)
      else Inl FileNotFoundError)"

text \<open>
  What \<^verbatim>\<open>json.dump\<close> accepts: \<^verbatim>\<open>None\<close>, booleans, floats, strings, lists and
  dictionaries of such values. A \<^verbatim>\<open>numpy.int64\<close> is none of them.
\<close>

fun serialisable :: "json \<Rightarrow> bool" where
  "serialisable (NpInt64 i) = False"
| "serialisable (JArr xs) = list_all serialisable xs"
| "serialisable (JObj d) = list_all (\<lambda>kv. serialisable (snd kv)) d"
| "serialisable _ = True"

text \<open>
  \<^verbatim>\<open>json.dump(obj, f, indent=4)\<close> on the file just opened. It writes the text piece
  by piece and raises \<^verbatim>\<open>TypeError\<close> at the first value it does not accept; the
  file then keeps the pieces written so far, an unfinished text. When it
  succeeds, the file holds a text that \<^verbatim>\<open>json.load\<close> parses back to an equal
  value: this round trip is the library's, and is taken as given.
\<close>

definition json_dump :: "json \<Rightarrow> string \<Rightarrow> files \<Rightarrow> (error + unit) \<times> files" where
  "json_dump obj path fs =
     (if serialisable obj
      then (Inr (), fs\<lparr>contents := (contents fs)(path \<mapsto> JsonText obj)\<rparr>)
      else (Inl TypeError, fs\<lparr>contents := (contents fs)(path \<mapsto> Broken)\<rparr>))"

text \<open>\<^verbatim>\<open>json.load(f)\<close>: the value of a text that parses, \<^verbatim>\<open>JSONDecodeError\<close> otherwise.\<close>

fun json_load :: "file_content \<Rightarrow> error + json" where
  "json_load (JsonText v) = Inr v"
| "json_load Broken = Inl JSONDecodeError"

text \<open>
  \<^verbatim>\<open>save_calculation(name, description)\<close>. The result is the exception raised or
  the message written to the page, together with the file system afterwards.
\<close>

definition save_calculation ::
  "string \<Rightarrow> string \<Rightarrow> session \<Rightarrow> files \<Rightarrow> (error + ui_msg list) \<times> files" where
  "save_calculation name description s fs =
     (let data = JObj [(''name'', JStr name), (''description'', JStr description),
                       (''adds'', adds s), (''omits'', omits s)];
          file_path = path_join SAVE_FOLDER (name @ ''.json'')
      in case open_w file_path fs of
           Inl e \<Rightarrow> (Inl e, fs)
         | Inr fs1 \<Rightarrow>
             (case json_dump data file_path fs1 of
                (Inl e, fs2) \<Rightarrow> (Inl e, fs2)
              | (Inr _, fs2) \<Rightarrow> (Inr [Success (''Saved to '' @ file_path)], fs2)))"

text \<open>\<^verbatim>\<open>obj.get(key, default)\<close>: only a dictionary has the method.\<close>

fun py_get :: "json \<Rightarrow> string \<Rightarrow> json \<Rightarrow> error + json" where
  "py_get (JObj d) key dflt = Inr (case map_of d key of None \<Rightarrow> dflt | Some v \<Rightarrow> v)"
| "py_get _ key dflt = Inl AttributeError"

definition load_calculation ::
  "string \<Rightarrow> files \<Rightarrow> session \<Rightarrow> (error + (json \<times> json)) \<times> session" where
  "load_calculation file fs s =
     (case contents fs file of
        None \<Rightarrow> (Inl FileNotFoundError, s)
      | Some text \<Rightarrow>
          (case json_load text of
             Inl e \<Rightarrow> (Inl e, s)
           | Inr data \<Rightarrow>
               (case py_get data ''adds'' (JArr []) of
                  Inl e \<Rightarrow> (Inl e, s)
                | Inr a \<Rightarrow>
                    (let s1 = s\<lparr>adds := a\<rparr> in
                     case py_get data ''omits'' (JArr []) of
                       Inl e \<Rightarrow> (Inl e, s1)
                     | Inr b \<Rightarrow>
                         (let s2 = s1\<lparr>omits := b\<rparr> in
                          case py_get data ''name'' (JStr []) of
                            Inl e \<Rightarrow> (Inl e, s2)
                          | Inr n \<Rightarrow>
                              (case py_get data ''description'' (JStr []) of
                                 Inl e \<Rightarrow> (Inl e, s2)
                               | Inr d \<Rightarrow> (Inr (n, d), s2)))))))"

section \<open>Material filters and the quantity calculator\<close>

text \<open>\<^verbatim>\<open>Series.unique()\<close>: the distinct values in order of first appearance.\<close>

fun unique :: "'a list \<Rightarrow> 'a list" where
  "unique [] = []"
| "unique (x # xs) = x # unique (filter (\<lambda>y. y \<noteq> x) xs)"

text \<open>
  The three option lists of the page. \<^verbatim>\<open>st.selectbox\<close> returns \<^verbatim>\<open>None\<close> when its
  option list is empty, and a column of strings compared with \<^verbatim>\<open>None\<close> matches no
  row. Python compares strings by code point, which is the byte order of their
  UTF-8 encoding, so \<^verbatim>\<open>sorted\<close> is \<open>sort\<close> in the lexicographic order of
  \<open>char list\<close>.
\<close>

definition materials :: "material_row list \<Rightarrow> string list" where
  "materials ice_db = sort (unique (map material ice_db))"

definition sub_materials :: "material_row list \<Rightarrow> string option \<Rightarrow> string list" where
  "sub_materials ice_db mat =
     sort (unique (map sub_material (filter (\<lambda>r. Some (material r) = mat) ice_db)))"

definition ice_names :: "material_row list \<Rightarrow> string option \<Rightarrow> string option \<Rightarrow> string list" where
  "ice_names ice_db mat sub =
     sort (unique (map ice_db_name
       (filter (\<lambda>r. Some (material r) = mat \<and> Some (sub_material r) = sub) ice_db)))"

text \<open>The expression bound to \<^verbatim>\<open>calc_qty\<close> in the dimensions expander.\<close>

definition calc_qty :: "real \<Rightarrow> real \<Rightarrow> real \<Rightarrow> real \<Rightarrow> real \<Rightarrow> real" where
  "calc_qty nr length' width depth factor = nr * length' * width * depth * factor"

section \<open>Example data\<close>

text \<open>
  The one-record table of the specification's scenario, a table with a repeated
  name, and a table whose carbon column holds whole numbers only.
\<close>

definition demo_row :: material_row where
  "demo_row = \<lparr>material = ''Concrete'', sub_material = ''In situ'',
               ice_db_name = ''Concrete C30'', units_of_declared_unit = ''kg'',
               embodied_carbon = Float64 (12 / 100)\<rparr>"

definition demo_db :: "material_row list" where
  "demo_db = [demo_row]"

definition steel_row :: material_row where
  "steel_row = \<lparr>material = ''Steel'', sub_material = ''Bar'',
                ice_db_name = ''Steel rebar'', units_of_declared_unit = ''kg'',
                embodied_carbon = Float64 2\<rparr>"

definition dup_row :: material_row where
  "dup_row = \<lparr>material = ''Concrete'', sub_material = ''Precast'',
              ice_db_name = ''Concrete C30'', units_of_declared_unit = ''m3'',
              embodied_carbon = Float64 5\<rparr>"

definition dup_db :: "material_row list" where
  "dup_db = [steel_row, demo_row, dup_row]"

definition whole_row :: material_row where
  "whole_row = \<lparr>material = ''Steel'', sub_material = ''Bar'',
                ice_db_name = ''Steel rebar'', units_of_declared_unit = ''kg'',
                embodied_carbon = Int64 2\<rparr>"

definition whole_db :: "material_row list" where
  "whole_db = [whole_row]"

text \<open>Sessions as \<open>add_item\<close> leaves them, the last one on the table of whole numbers.\<close>

definition two_adds :: session where
  "two_adds = \<lparr>adds = JArr [entry_dict ''Concrete C30'' 100 (Float64 (12 / 100)) 12,
                              entry_dict ''Steel rebar'' 3 (Float64 2) 6],
               omits = JArr [entry_dict ''Steel rebar'' 1 (Float64 2) 2]\<rparr>"

definition one_add :: session where
  "one_add = \<lparr>adds = JArr [entry_dict ''Concrete C30'' 100 (Float64 (12 / 100)) 12],
              omits = JArr []\<rparr>"

definition whole_add :: session where
  "whole_add = \<lparr>adds = JArr [entry_dict ''Steel rebar'' 3 (Int64 2) 6], omits = JArr []\<rparr>"

text \<open>
  File systems: the one after \<^verbatim>\<open>os.makedirs(SAVE_FOLDER, exist_ok=True)\<close> at start-up,
  and one with two saved files, the first without the \<^verbatim>\<open>omits\<close> and
  \<^verbatim>\<open>description\<close> fields, the second holding a list.
\<close>

definition start_files :: files where
  "start_files = \<lparr>dirs = {''saved_calculations''}, contents = Map.empty\<rparr>"

definition adds_only_blob :: json where
  "adds_only_blob = JObj [(''name'', JStr ''demo''),
                          (''adds'', JArr [entry_dict ''Steel rebar'' 3 (Float64 2) 6])]"

definition demo_files :: files where
  "demo_files =
     \<lparr>dirs = {''saved_calculations''},
      contents = [''saved_calculations/demo.json'' \<mapsto> JsonText adds_only_blob,
                  ''saved_calculations/list.json'' \<mapsto> JsonText (JArr [])]\<rparr>"

section \<open>Adding a line item\<close>

lemma filter_find_Some:
  "find P xs = Some x \<Longrightarrow> \<exists>rest. filter P xs = x # rest"
  by (induction xs) (auto split: if_splits)

lemma filter_absent:
  "k \<notin> f ` set xs \<Longrightarrow> filter (\<lambda>r. f r = k) xs = []"
  by (induction xs) auto

lemma find_present:
  "k \<in> f ` set xs \<Longrightarrow> \<exists>x. find (\<lambda>r. f r = k) xs = Some x"
  by (induction xs) auto

lemma add_item_match:
  assumes "filter (\<lambda>r. ice_db_name r = ice_name) ice_db = row # rest"
  shows "add_item ice_db list_type ice_name qty s =
     (if list_type = ''Add''
      then (case py_append (adds s)
                   (entry_dict ice_name qty (embodied_carbon row)
                      (cell_value (embodied_carbon row) * qty)) of
              Inl e \<Rightarrow> (Inl e, s)
            | Inr l \<Rightarrow> (Inr [], s\<lparr>adds := l\<rparr>))
      else (case py_append (omits s)
                   (entry_dict ice_name qty (embodied_carbon row)
                      (cell_value (embodied_carbon row) * qty)) of
              Inl e \<Rightarrow> (Inl e, s)
            | Inr l \<Rightarrow> (Inr [], s\<lparr>omits := l\<rparr>)))"
  using assms by (simp add: add_item_def Let_def)

lemma getitem_entry_total:
  "py_getitem (entry_dict n q e t) ''Total_EC'' = Inr (JNum t)"
  by (simp add: entry_dict_def)

lemma getitem_entry_ec_per_unit:
  "py_getitem (entry_dict n q e t) ''EC_per_unit'' = Inr (cell_object e)"
  by (simp add: entry_dict_def)

lemma demo_find: "find (\<lambda>r. ice_db_name r = ''Concrete C30'') demo_db = Some demo_row"
  by (simp add: demo_db_def demo_row_def)

text \<open>
  C1. Let the name be in the table, \<open>row\<close> being its first row, and let the selected
  list (\<open>adds\<close> for \<^verbatim>\<open>"Add"\<close>, \<open>omits\<close> otherwise) be a list \<open>xs\<close>. Then for every
  quantity, of any sign, \<open>add_item\<close> raises nothing, writes no message and replaces
  the selected list by \<open>xs\<close> followed by one entry; the other list is untouched. The
  entry's \<^verbatim>\<open>Total_EC\<close> is the quantity times the row's embodied carbon per unit, and
  the list is one element longer.
\<close>

theorem add_item_appends:
  assumes present: "find (\<lambda>r. ice_db_name r = ice_name) ice_db = Some row"
      and target: "(if list_type = ''Add'' then adds s else omits s) = JArr xs"
  shows "add_item ice_db list_type ice_name qty s =
           (Inr [],
            if list_type = ''Add''
            then s\<lparr>adds := JArr (xs @ [entry_dict ice_name qty (embodied_carbon row)
                                                  (qty * cell_value (embodied_carbon row))])\<rparr>
            else s\<lparr>omits := JArr (xs @ [entry_dict ice_name qty (embodied_carbon row)
                                                   (qty * cell_value (embodied_carbon row))])\<rparr>)
       \<and> py_getitem (entry_dict ice_name qty (embodied_carbon row) (qty * cell_value (embodied_carbon row)))
            ''Total_EC'' = Inr (JNum (qty * cell_value (embodied_carbon row)))
       \<and> length (xs @ [entry_dict ice_name qty (embodied_carbon row)
                                   (qty * cell_value (embodied_carbon row))]) = length xs + 1"
proof -
  from filter_find_Some [OF present]
  obtain rest where m: "filter (\<lambda>r. ice_db_name r = ice_name) ice_db = row # rest" ..
  have c: "cell_value (embodied_carbon row) * qty = qty * cell_value (embodied_carbon row)"
    by (simp add: mult.commute)
  have a: "add_item ice_db list_type ice_name qty s =
           (Inr [],
            if list_type = ''Add''
            then s\<lparr>adds := JArr (xs @ [entry_dict ice_name qty (embodied_carbon row)
                                                  (qty * cell_value (embodied_carbon row))])\<rparr>
            else s\<lparr>omits := JArr (xs @ [entry_dict ice_name qty (embodied_carbon row)
                                                   (qty * cell_value (embodied_carbon row))])\<rparr>)"
    using target by (simp add: add_item_match [OF m] c split: if_splits)
  show ?thesis
    using a by (simp add: getitem_entry_total)
qed

text \<open>A negative quantity on the one-record table, from the empty session.\<close>

theorem add_item_appends_witness:
  "add_item demo_db ''Add'' ''Concrete C30'' (- 100) initial_session =
     (Inr [], \<lparr>adds = JArr [entry_dict ''Concrete C30'' (- 100) (Float64 (12 / 100)) (- 12)],
               omits = JArr []\<rparr>)"
proof -
  have t: "(if ''Add'' = ''Add'' then adds initial_session else omits initial_session) = JArr []"
    by (simp add: initial_session_def)
  have e: "embodied_carbon demo_row = Float64 (12 / 100)"
    by (simp add: demo_row_def)
  show ?thesis
    using add_item_appends [OF demo_find t, of "- 100"]
    by (simp add: e initial_session_def)
qed

text \<open>
  C4. When no row of the table has the name, \<open>add_item\<close> writes the warning
  that the name was not found and returns the session as it was: neither list
  changes, whatever the bucket and the quantity.
\<close>

theorem add_item_not_found:
  assumes "ice_name \<notin> ice_db_name ` set ice_db"
  shows "add_item ice_db list_type ice_name qty s =
           (Inr [Warning (ice_name @ '' not found in ICE DB'')], s)"
  using filter_absent [OF assms] by (simp add: add_item_def)

theorem add_item_not_found_witness:
  "add_item demo_db ''Add'' ''Timber'' 5 initial_session =
     (Inr [Warning ''Timber not found in ICE DB''], initial_session)"
proof -
  have a: "''Timber'' \<notin> ice_db_name ` set demo_db"
    by (simp add: demo_db_def demo_row_def)
  show ?thesis
    using add_item_not_found [OF a, of "''Add''" 5 initial_session] by simp
qed

text \<open>
  C9. Every \<open>list_type\<close> other than the string \<^verbatim>\<open>"Add"\<close> selects \<open>omits\<close>: with the
  name in the table and \<open>omits\<close> a list, the entry is appended to \<open>omits\<close>, \<open>adds\<close>
  is not touched, and nothing is raised or reported.
\<close>

theorem add_item_other_bucket:
  assumes other: "list_type \<noteq> ''Add''"
      and present: "find (\<lambda>r. ice_db_name r = ice_name) ice_db = Some row"
      and target: "omits s = JArr ys"
  shows "add_item ice_db list_type ice_name qty s =
           (Inr [], s\<lparr>omits := JArr (ys @ [entry_dict ice_name qty (embodied_carbon row)
                                           (cell_value (embodied_carbon row) * qty)])\<rparr>)"
proof -
  from filter_find_Some [OF present]
  obtain rest where m: "filter (\<lambda>r. ice_db_name r = ice_name) ice_db = row # rest" ..
  show ?thesis
    using other target by (simp add: add_item_match [OF m])
qed

theorem add_item_other_bucket_witness:
  "add_item demo_db ''Remove'' ''Concrete C30'' 100 initial_session =
     (Inr [], \<lparr>adds = JArr [],
               omits = JArr [entry_dict ''Concrete C30'' 100 (Float64 (12 / 100)) 12]\<rparr>)"
proof -
  have n: "''Remove'' \<noteq> ''Add''" by simp
  have t: "omits initial_session = JArr []" by (simp add: initial_session_def)
  have e: "embodied_carbon demo_row = Float64 (12 / 100)" by (simp add: demo_row_def)
  show ?thesis
    using add_item_other_bucket [OF n demo_find t, of 100]
    by (simp add: e initial_session_def)
qed

lemma filter_first_match:
  assumes "\<forall>r \<in> set pre. \<not> P r" and "P row"
  shows "filter P (pre @ row # post) = row # filter P post"
  using assms by (induction pre) auto

text \<open>
  C10. Let \<open>row\<close> be the first row of the table with the name: no row before it
  has the name, the rows after it are arbitrary and may repeat the name. Then
  \<open>add_item\<close> does not fail and appends one entry to the selected list, and that
  entry's \<^verbatim>\<open>EC_per_unit\<close> is the carbon per unit of \<open>row\<close>, its \<^verbatim>\<open>Total_EC\<close> that
  value times the quantity.
\<close>

theorem add_item_first_match:
  assumes split: "ice_db = pre @ row # post"
      and before: "\<forall>r \<in> set pre. ice_db_name r \<noteq> ice_name"
      and here: "ice_db_name row = ice_name"
      and target: "(if list_type = ''Add'' then adds s else omits s) = JArr xs"
  shows "\<exists>entry.
           add_item ice_db list_type ice_name qty s =
             (Inr [], if list_type = ''Add'' then s\<lparr>adds := JArr (xs @ [entry])\<rparr>
                      else s\<lparr>omits := JArr (xs @ [entry])\<rparr>)
         \<and> py_getitem entry ''ICE DB Name'' = Inr (JStr ice_name)
         \<and> py_getitem entry ''Qty'' = Inr (JNum qty)
         \<and> py_getitem entry ''EC_per_unit'' = Inr (cell_object (embodied_carbon row))
         \<and> py_getitem entry ''Total_EC'' = Inr (JNum (cell_value (embodied_carbon row) * qty))"
proof -
  let ?entry = "entry_dict ice_name qty (embodied_carbon row)
                  (cell_value (embodied_carbon row) * qty)"
  have m: "filter (\<lambda>r. ice_db_name r = ice_name) ice_db
           = row # filter (\<lambda>r. ice_db_name r = ice_name) post"
    unfolding split using before here by (intro filter_first_match) auto
  have a: "add_item ice_db list_type ice_name qty s =
             (Inr [], if list_type = ''Add'' then s\<lparr>adds := JArr (xs @ [?entry])\<rparr>
                      else s\<lparr>omits := JArr (xs @ [?entry])\<rparr>)"
    using target by (simp add: add_item_match [OF m] split: if_splits)
  have n: "py_getitem ?entry ''ICE DB Name'' = Inr (JStr ice_name)"
    by (simp add: entry_dict_def)
  have q: "py_getitem ?entry ''Qty'' = Inr (JNum qty)"
    by (simp add: entry_dict_def)
  have e: "py_getitem ?entry ''EC_per_unit'' = Inr (cell_object (embodied_carbon row))"
    by (rule getitem_entry_ec_per_unit)
  have t: "py_getitem ?entry ''Total_EC'' = Inr (JNum (cell_value (embodied_carbon row) * qty))"
    by (rule getitem_entry_total)
  from a n q e t show ?thesis by blast
qed

text \<open>
  Two rows named \<^verbatim>\<open>Concrete C30\<close>, with 0.12 and 5 per unit: the entry appended
  carries 0.12, the value of the first of them.
\<close>

theorem add_item_first_match_witness:
  "\<exists>entry.
     add_item dup_db ''Add'' ''Concrete C30'' 10 initial_session =
       (Inr [], initial_session\<lparr>adds := JArr ([] @ [entry])\<rparr>)
   \<and> py_getitem entry ''ICE DB Name'' = Inr (JStr ''Concrete C30'')
   \<and> py_getitem entry ''Qty'' = Inr (JNum 10)
   \<and> py_getitem entry ''EC_per_unit'' = Inr (cell_object (Float64 (12 / 100)))
   \<and> py_getitem entry ''Total_EC'' = Inr (JNum (cell_value (Float64 (12 / 100)) * 10))"
proof -
  have d: "dup_db = [steel_row] @ demo_row # [dup_row]" by (simp add: dup_db_def)
  have b: "\<forall>r \<in> set [steel_row]. ice_db_name r \<noteq> ''Concrete C30''"
    by (simp add: steel_row_def)
  have h: "ice_db_name demo_row = ''Concrete C30''" by (simp add: demo_row_def)
  have t: "(if ''Add'' = ''Add'' then adds initial_session else omits initial_session) = JArr []"
    by (simp add: initial_session_def)
  have e: "embodied_carbon demo_row = Float64 (12 / 100)" by (simp add: demo_row_def)
  have c: "(if ''Add'' = ''Add'' then x else y) = x" for x y :: session by simp
  show ?thesis
    using add_item_first_match [OF d b h t, of 10] unfolding e c .
qed

text \<open>The same call, evaluated: the later row's value 5 is nowhere in the result.\<close>

lemma add_item_dup_db_value:
  "add_item dup_db ''Add'' ''Concrete C30'' 10 initial_session =
     (Inr [], \<lparr>adds = JArr [JObj [(''ICE DB Name'', JStr ''Concrete C30''), (''Qty'', JNum 10),
                                   (''EC_per_unit'', JNum (12 / 100)),
                                   (''Total_EC'', JNum (12 / 10))]],
               omits = JArr []\<rparr>)"
  by (simp add: add_item_def dup_db_def steel_row_def demo_row_def dup_row_def
        initial_session_def entry_dict_def)

section \<open>Totals of the session\<close>

lemma sum_total_ec_numbers:
  "map (\<lambda>x. py_getitem x ''Total_EC'') xs = map (\<lambda>t. Inr (JNum t)) ts
   \<Longrightarrow> sum_total_ec acc xs = Inr (acc + sum_list ts)"
proof (induction xs arbitrary: acc ts)
  case Nil
  then show ?case by simp
next
  case (Cons x xs)
  then obtain t ts' where ts: "ts = t # ts'" by (cases ts) auto
  with Cons.prems have h: "py_getitem x ''Total_EC'' = Inr (JNum t)"
    and r: "map (\<lambda>x. py_getitem x ''Total_EC'') xs = map (\<lambda>t. Inr (JNum t)) ts'"
    by auto
  show ?case
    using Cons.IH [OF r, of "acc + t"] by (simp add: h ts add.assoc)
qed

text \<open>
  C2. When both session lists are lists whose items carry a numeric \<^verbatim>\<open>Total_EC\<close>
  (\<open>ts\<close> for the adds, \<open>us\<close> for the omits, in list order), \<open>update_totals\<close> returns
  the sum of \<open>ts\<close>, the sum of \<open>us\<close> and their difference; on the empty session it
  returns three zeros. The function reads the session and returns no new one.
\<close>

theorem update_totals_sums:
  assumes a: "adds s = JArr xs" and o: "omits s = JArr ys"
      and ta: "map (\<lambda>x. py_getitem x ''Total_EC'') xs = map (\<lambda>t. Inr (JNum t)) ts"
      and to: "map (\<lambda>x. py_getitem x ''Total_EC'') ys = map (\<lambda>t. Inr (JNum t)) us"
  shows "update_totals s = Inr (sum_list ts, sum_list us, sum_list ts - sum_list us)
       \<and> update_totals initial_session = Inr (0, 0, 0)"
  by (simp add: update_totals_def a o initial_session_def
        sum_total_ec_numbers [OF ta] sum_total_ec_numbers [OF to])

theorem update_totals_sums_witness:
  "update_totals two_adds = Inr (18, 2, 16)"
proof -
  have a: "adds two_adds = JArr [entry_dict ''Concrete C30'' 100 (Float64 (12 / 100)) 12,
                                 entry_dict ''Steel rebar'' 3 (Float64 2) 6]"
    by (simp add: two_adds_def)
  have o: "omits two_adds = JArr [entry_dict ''Steel rebar'' 1 (Float64 2) 2]"
    by (simp add: two_adds_def)
  have ta: "map (\<lambda>x. py_getitem x ''Total_EC'')
              [entry_dict ''Concrete C30'' 100 (Float64 (12 / 100)) 12, entry_dict ''Steel rebar'' 3 (Float64 2) 6]
            = map (\<lambda>t. Inr (JNum t)) [12, 6]"
    by (simp add: getitem_entry_total)
  have to: "map (\<lambda>x. py_getitem x ''Total_EC'') [entry_dict ''Steel rebar'' 1 (Float64 2) 2]
            = map (\<lambda>t. Inr (JNum t)) [2]"
    by (simp add: getitem_entry_total)
  show ?thesis
    using update_totals_sums [OF a o ta to] by simp
qed

section \<open>Deleting a line item\<close>

lemma py_pop_overflow:
  "index < - (2 ^ 63) \<or> 2 ^ 63 \<le> index \<Longrightarrow> py_pop (JArr xs) index = Inl OverflowError"
  by auto

lemma py_pop_in_range:
  "0 \<le> index \<Longrightarrow> index < int (length xs) \<Longrightarrow> index < 2 ^ 63 \<Longrightarrow>
   py_pop (JArr xs) index =
     Inr (xs ! nat index, JArr (take (nat index) xs @ drop (Suc (nat index)) xs))"
  by (simp add: Let_def)

lemma py_pop_from_end:
  "- int (length xs) \<le> index \<Longrightarrow> index < 0 \<Longrightarrow> - (2 ^ 63) \<le> index \<Longrightarrow>
   py_pop (JArr xs) index =
     Inr (xs ! nat (int (length xs) + index),
          JArr (take (nat (int (length xs) + index)) xs
                @ drop (Suc (nat (int (length xs) + index))) xs))"
  by (simp add: Let_def add.commute)

lemma py_pop_out_of_range:
  "- (2 ^ 63) \<le> index \<Longrightarrow> index < 2 ^ 63 \<Longrightarrow>
   index < - int (length xs) \<or> int (length xs) \<le> index \<Longrightarrow>
   py_pop (JArr xs) index = Inl IndexError"
  by (auto simp add: Let_def)

lemma nth_remove:
  assumes "i < length xs" and "k < length xs - 1"
  shows "(take i xs @ drop (Suc i) xs) ! k = (if k < i then xs ! k else xs ! Suc k)"
  using assms by (auto simp add: nth_append min_def)

text \<open>
  C3, as the code has it. Let the selected list be a list \<open>xs\<close> of fewer than
  \<open>2 ^ 63\<close> elements, as every Python list is. An index below \<open>- length xs\<close> or at
  least \<open>length xs\<close> makes \<open>delete_item\<close> fail and leaves the session as it was:
  with \<^verbatim>\<open>IndexError\<close> when the index fits a signed 64-bit integer, with
  \<^verbatim>\<open>OverflowError\<close> when it does not. An index in \<open>[0, length xs)\<close> removes exactly
  the element at that index: the list is one shorter, the elements before the
  index stay in place and the elements after it move down by one. An index in
  \<open>[- length xs, 0)\<close> removes the element at \<open>length xs + index\<close>.
\<close>

theorem delete_item_pop:
  assumes target: "(if list_type = ''Add'' then adds s else omits s) = JArr xs"
      and small: "int (length xs) < 2 ^ 63"
  shows "(index < - (2 ^ 63) \<or> 2 ^ 63 \<le> index
            \<longrightarrow> delete_item list_type index s = (Inl OverflowError, s))
       \<and> (- (2 ^ 63) \<le> index \<and> index < 2 ^ 63
          \<and> (index < - int (length xs) \<or> int (length xs) \<le> index)
            \<longrightarrow> delete_item list_type index s = (Inl IndexError, s))
       \<and> (0 \<le> index \<and> index < int (length xs)
            \<longrightarrow> delete_item list_type index s =
                  (Inr (), if list_type = ''Add''
                           then s\<lparr>adds := JArr (take (nat index) xs @ drop (Suc (nat index)) xs)\<rparr>
                           else s\<lparr>omits := JArr (take (nat index) xs @ drop (Suc (nat index)) xs)\<rparr>)
                \<and> length (take (nat index) xs @ drop (Suc (nat index)) xs) = length xs - 1
                \<and> (\<forall>k < length xs - 1.
                      (take (nat index) xs @ drop (Suc (nat index)) xs) ! k
                      = (if k < nat index then xs ! k else xs ! Suc k)))
       \<and> (- int (length xs) \<le> index \<and> index < 0
            \<longrightarrow> delete_item list_type index s =
                  (Inr (), if list_type = ''Add''
                           then s\<lparr>adds := JArr (take (nat (int (length xs) + index)) xs
                                                 @ drop (Suc (nat (int (length xs) + index))) xs)\<rparr>
                           else s\<lparr>omits := JArr (take (nat (int (length xs) + index)) xs
                                                  @ drop (Suc (nat (int (length xs) + index))) xs)\<rparr>))"
proof (intro conjI impI)
  assume "index < - (2 ^ 63) \<or> 2 ^ 63 \<le> index"
  from py_pop_overflow [OF this] target
  show "delete_item list_type index s = (Inl OverflowError, s)"
    by (simp add: delete_item_def split: if_splits)
next
  assume r: "- (2 ^ 63) \<le> index \<and> index < 2 ^ 63
             \<and> (index < - int (length xs) \<or> int (length xs) \<le> index)"
  then have "py_pop (JArr xs) index = Inl IndexError"
    by (intro py_pop_out_of_range) auto
  with target show "delete_item list_type index s = (Inl IndexError, s)"
    by (simp add: delete_item_def split: if_splits)
next
  assume r: "0 \<le> index \<and> index < int (length xs)"
  with small have p: "py_pop (JArr xs) index =
     Inr (xs ! nat index, JArr (take (nat index) xs @ drop (Suc (nat index)) xs))"
    by (intro py_pop_in_range) auto
  from p target
  show "delete_item list_type index s =
          (Inr (), if list_type = ''Add''
                   then s\<lparr>adds := JArr (take (nat index) xs @ drop (Suc (nat index)) xs)\<rparr>
                   else s\<lparr>omits := JArr (take (nat index) xs @ drop (Suc (nat index)) xs)\<rparr>)"
    by (simp add: delete_item_def split: if_splits)
  from r show "length (take (nat index) xs @ drop (Suc (nat index)) xs) = length xs - 1"
    by auto
  from r have i: "nat index < length xs" by auto
  show "\<forall>k < length xs - 1.
          (take (nat index) xs @ drop (Suc (nat index)) xs) ! k
          = (if k < nat index then xs ! k else xs ! Suc k)"
    using nth_remove [OF i] by blast
next
  assume r: "- int (length xs) \<le> index \<and> index < 0"
  with small have p: "py_pop (JArr xs) index =
     Inr (xs ! nat (int (length xs) + index),
          JArr (take (nat (int (length xs) + index)) xs
                @ drop (Suc (nat (int (length xs) + index))) xs))"
    by (intro py_pop_from_end) auto
  from p target
  show "delete_item list_type index s =
          (Inr (), if list_type = ''Add''
                   then s\<lparr>adds := JArr (take (nat (int (length xs) + index)) xs
                                         @ drop (Suc (nat (int (length xs) + index))) xs)\<rparr>
                   else s\<lparr>omits := JArr (take (nat (int (length xs) + index)) xs
                                          @ drop (Suc (nat (int (length xs) + index))) xs)\<rparr>)"
    by (simp add: delete_item_def split: if_splits)
qed

text \<open>
  On a list of two entries: index 0 and index -2 remove the first entry, 2 and
  -3 raise \<^verbatim>\<open>IndexError\<close>, and \<open>2 ^ 63\<close> raises \<^verbatim>\<open>OverflowError\<close>.
\<close>

theorem delete_item_pop_witness:
  "delete_item ''Add'' 0 two_adds =
     (Inr (), \<lparr>adds = JArr [entry_dict ''Steel rebar'' 3 (Float64 2) 6],
               omits = JArr [entry_dict ''Steel rebar'' 1 (Float64 2) 2]\<rparr>)
   \<and> delete_item ''Add'' 2 two_adds = (Inl IndexError, two_adds)
   \<and> delete_item ''Add'' (- 3) two_adds = (Inl IndexError, two_adds)
   \<and> delete_item ''Add'' (- 2) two_adds =
     (Inr (), \<lparr>adds = JArr [entry_dict ''Steel rebar'' 3 (Float64 2) 6],
               omits = JArr [entry_dict ''Steel rebar'' 1 (Float64 2) 2]\<rparr>)
   \<and> delete_item ''Add'' (2 ^ 63) two_adds = (Inl OverflowError, two_adds)"
proof -
  have t: "(if ''Add'' = ''Add'' then adds two_adds else omits two_adds)
           = JArr [entry_dict ''Concrete C30'' 100 (Float64 (12 / 100)) 12,
                   entry_dict ''Steel rebar'' 3 (Float64 2) 6]"
    by (simp add: two_adds_def)
  have l: "int (length [entry_dict ''Concrete C30'' 100 (Float64 (12 / 100)) 12,
                        entry_dict ''Steel rebar'' 3 (Float64 2) 6]) < 2 ^ 63"
    by simp
  show ?thesis
    using delete_item_pop [OF t l, of 0] delete_item_pop [OF t l, of 2]
          delete_item_pop [OF t l, of "- 3"] delete_item_pop [OF t l, of "- 2"]
          delete_item_pop [OF t l, of "2 ^ 63"]
    by (simp add: two_adds_def)
qed

text \<open>
  C3, as stated, fails: the index \<open>-1\<close> is outside \<open>[0, 1)\<close>, yet on a list of one
  entry \<open>delete_item\<close> raises nothing and removes the entry.
\<close>

theorem delete_item_negative_index_counterexample:
  "\<not> (0 \<le> (- 1 :: int)
       \<and> (- 1 :: int) < int (length [entry_dict ''Concrete C30'' 100 (Float64 (12 / 100)) 12]))
   \<and> adds one_add = JArr [entry_dict ''Concrete C30'' 100 (Float64 (12 / 100)) 12]
   \<and> delete_item ''Add'' (- 1) one_add = (Inr (), \<lparr>adds = JArr [], omits = JArr []\<rparr>)
   \<and> delete_item ''Add'' (- 1) one_add \<noteq> (Inl IndexError, one_add)"
  by (simp add: delete_item_def one_add_def Let_def)

section \<open>Saving and loading a session\<close>

lemma whole_find: "find (\<lambda>r. ice_db_name r = ''Steel rebar'') whole_db = Some whole_row"
  by (simp add: whole_db_def whole_row_def)

lemma demo_path: "path_join SAVE_FOLDER (''demo'' @ ''.json'') = ''saved_calculations/demo.json''"
  by (simp add: path_join_def SAVE_FOLDER_def)

lemma demo_dirname: "dirname ''saved_calculations/demo.json'' = ''saved_calculations''"
  by (simp add: dirname_def)

text \<open>
  C5 at a session that the program builds. The carbon column holds whole numbers,
  so \<open>add_item\<close> puts a \<^verbatim>\<open>numpy.int64\<close> into the entry's \<^verbatim>\<open>EC_per_unit\<close>. Saving that
  session opens the file and then raises \<^verbatim>\<open>TypeError\<close> inside \<^verbatim>\<open>json.dump\<close>, leaving
  an unfinished file, and loading that file raises \<^verbatim>\<open>JSONDecodeError\<close>: the session is
  not reconstructed.
\<close>

theorem save_int64_entry_not_loadable:
  "add_item whole_db ''Add'' ''Steel rebar'' 3 initial_session = (Inr [], whole_add)
   \<and> save_calculation ''demo'' [] whole_add start_files =
       (Inl TypeError,
        \<lparr>dirs = {''saved_calculations''},
          contents = [''saved_calculations/demo.json'' \<mapsto> Broken]\<rparr>)
   \<and> load_calculation ''saved_calculations/demo.json''
       (snd (save_calculation ''demo'' [] whole_add start_files)) initial_session =
       (Inl JSONDecodeError, initial_session)"
proof -
  have a: "add_item whole_db ''Add'' ''Steel rebar'' 3 initial_session = (Inr [], whole_add)"
    by (simp add: add_item_def whole_db_def whole_row_def initial_session_def whole_add_def)
  have n: "\<not> serialisable (adds whole_add)"
    by (simp add: whole_add_def entry_dict_def)
  have o: "open_w ''saved_calculations/demo.json'' start_files =
             Inr \<lparr>dirs = {''saved_calculations''},
                  contents = [''saved_calculations/demo.json'' \<mapsto> Broken]\<rparr>"
    by (simp add: open_w_def demo_dirname start_files_def)
  have s: "save_calculation ''demo'' [] whole_add start_files =
             (Inl TypeError,
              \<lparr>dirs = {''saved_calculations''},
                contents = [''saved_calculations/demo.json'' \<mapsto> Broken]\<rparr>)"
    using demo_path by (simp add: save_calculation_def o json_dump_def n Let_def)
  have l: "load_calculation ''saved_calculations/demo.json''
             (snd (save_calculation ''demo'' [] whole_add start_files)) initial_session =
             (Inl JSONDecodeError, initial_session)"
    by (simp add: s load_calculation_def)
  from a s l show ?thesis by simp
qed

text \<open>
  What does hold. When the directory of the file exists and the two session
  values are of the kinds \<^verbatim>\<open>json.dump\<close> accepts, saving succeeds and loading the file
  gives the session back. The proof rests on the round trip of the library, which
  the model of \<^verbatim>\<open>json.dump\<close> and \<^verbatim>\<open>json.load\<close> takes as given.
\<close>

lemma save_load_serialisable:
  assumes d: "dirname (path_join SAVE_FOLDER (name @ ''.json'')) \<in> dirs fs"
      and a: "serialisable (adds s)" and b: "serialisable (omits s)"
  shows "fst (save_calculation name description s fs)
           = Inr [Success (''Saved to '' @ path_join SAVE_FOLDER (name @ ''.json''))]
       \<and> load_calculation (path_join SAVE_FOLDER (name @ ''.json''))
           (snd (save_calculation name description s fs)) s'
           = (Inr (JStr name, JStr description), s)"
  using d a b by (simp add: save_calculation_def open_w_def json_dump_def
                    load_calculation_def Let_def)

text \<open>A name with a directory that does not exist: \<^verbatim>\<open>open\<close> raises and nothing is written.\<close>

lemma save_missing_directory:
  "save_calculation ''a/b'' [] initial_session start_files = (Inl FileNotFoundError, start_files)"
  by (simp add: save_calculation_def open_w_def path_join_def SAVE_FOLDER_def dirname_def
        start_files_def)

text \<open>
  C6. When the file holds a text that parses to a dictionary, \<open>load_calculation\<close>
  raises nothing. A list field that is missing becomes the empty list, and a
  field that is present replaces the session's value, whatever that was.
\<close>

theorem load_missing_lists:
  assumes "contents fs file = Some (JsonText (JObj d))"
  shows "load_calculation file fs s =
           (Inr (case map_of d ''name'' of None \<Rightarrow> JStr [] | Some v \<Rightarrow> v,
                 case map_of d ''description'' of None \<Rightarrow> JStr [] | Some v \<Rightarrow> v),
            s\<lparr>adds := (case map_of d ''adds'' of None \<Rightarrow> JArr [] | Some v \<Rightarrow> v),
              omits := (case map_of d ''omits'' of None \<Rightarrow> JArr [] | Some v \<Rightarrow> v)\<rparr>)"
  using assms by (simp add: load_calculation_def Let_def)

theorem load_missing_lists_witness:
  "load_calculation ''saved_calculations/demo.json'' demo_files two_adds =
     (Inr (JStr ''demo'', JStr []),
      \<lparr>adds = JArr [entry_dict ''Steel rebar'' 3 (Float64 2) 6], omits = JArr []\<rparr>)"
proof -
  have f: "contents demo_files ''saved_calculations/demo.json''
           = Some (JsonText (JObj [(''name'', JStr ''demo''),
                                   (''adds'', JArr [entry_dict ''Steel rebar'' 3 (Float64 2) 6])]))"
    by (simp add: demo_files_def adds_only_blob_def)
  show ?thesis
    using load_missing_lists
            [of demo_files "''saved_calculations/demo.json''" _ two_adds, OF f]
    by (simp add: two_adds_def)
qed

text \<open>A file holding a value that is not a dictionary has no fields: \<^verbatim>\<open>data.get\<close> raises.\<close>

lemma load_not_a_dict:
  "load_calculation ''saved_calculations/list.json'' demo_files two_adds
   = (Inl AttributeError, two_adds)"
  by (simp add: load_calculation_def demo_files_def)

section \<open>The filter lists\<close>

lemma set_unique: "set (unique xs) = set xs"
  by (induction xs rule: unique.induct) auto

lemma distinct_unique: "distinct (unique xs)"
  by (induction xs rule: unique.induct) (auto simp add: set_unique)

lemma sort_unique_strict: "sorted_wrt (<) (sort (unique xs))"
  by (simp add: strict_sorted_iff distinct_unique)

lemma string_less_lexord:
  "(a :: string) < b \<longleftrightarrow> (a, b) \<in> lexord {(c, d). (of_char c :: nat) < of_char d}"
  by (simp add: list_less_def less_char_def)

text \<open>
  C7. For every table and every choice of material and sub-material, each of the
  three option lists is strictly increasing in the lexicographic order of its
  strings, so it is sorted and has no repetition, and it holds exactly the values
  of its column on the rows that match the choice.
\<close>

theorem filters_sorted:
  "sorted_wrt (\<lambda>a b. (a, b) \<in> lexord {(c, d). (of_char c :: nat) < of_char d}) (materials ice_db)
   \<and> set (materials ice_db) = material ` set ice_db
   \<and> sorted_wrt (\<lambda>a b. (a, b) \<in> lexord {(c, d). (of_char c :: nat) < of_char d})
        (sub_materials ice_db mat)
   \<and> set (sub_materials ice_db mat) = sub_material ` {r \<in> set ice_db. Some (material r) = mat}
   \<and> sorted_wrt (\<lambda>a b. (a, b) \<in> lexord {(c, d). (of_char c :: nat) < of_char d})
        (ice_names ice_db mat sub)
   \<and> set (ice_names ice_db mat sub)
       = ice_db_name ` {r \<in> set ice_db. Some (material r) = mat \<and> Some (sub_material r) = sub}"
proof -
  have s: "sorted_wrt (\<lambda>a b. (a, b) \<in> lexord {(c, d). (of_char c :: nat) < of_char d})
             (sort (unique xs))" for xs :: "string list"
    using sort_unique_strict [of xs] by (simp add: string_less_lexord [abs_def])
  show ?thesis
    by (simp add: materials_def sub_materials_def ice_names_def s set_unique)
qed

theorem filters_sorted_witness:
  "materials dup_db = [''Concrete'', ''Steel'']
   \<and> sub_materials dup_db (Some ''Concrete'') = [''In situ'', ''Precast'']
   \<and> ice_names dup_db (Some ''Concrete'') (Some ''In situ'') = [''Concrete C30'']"
  using filters_sorted [of dup_db "Some ''Concrete''" "Some ''In situ''"]
  by (simp add: materials_def sub_materials_def ice_names_def dup_db_def
        steel_row_def demo_row_def dup_row_def)

section \<open>The quantity calculator\<close>

text \<open>
  C8. \<open>calc_qty\<close> is the product of its five inputs, for all inputs: negative and
  zero values pass through. On \<open>2, 3, 4, 0.5, 1\<close> it is \<open>12\<close>.
\<close>

theorem calc_qty_product:
  "calc_qty nr length' width depth factor = prod_list [nr, length', width, depth, factor]
   \<and> calc_qty 2 3 4 (1 / 2) 1 = 12
   \<and> calc_qty (- 2) 3 4 (1 / 2) 1 = - 12
   \<and> calc_qty 2 0 4 (1 / 2) 1 = 0"
  by (simp add: calc_qty_def mult.assoc)

theorem calc_qty_product_witness:
  "calc_qty (- 1) 2 3 4 5 = prod_list [- 1, 2, 3, 4, 5] \<and> calc_qty (- 1) 2 3 4 5 = - 120"
  using calc_qty_product [of "- 1" 2 3 4 5] by (simp add: calc_qty_def)

end
